theory Spec2Isabelle
  imports Complex_Main "HOL-Library.Word"
begin

section \<open>JavaScript strings, numbers and values\<close>

text \<open>
  The server actions of \<^verbatim>\<open>src/app/lib/actions.ts\<close> run on JavaScript values. A string
  is a sequence of UTF-16 code units (its \<^verbatim>\<open>length\<close> counts code units), a number is an
  IEEE 754 binary64 value. The literals of the source (messages, paths, field names, SQL
  identifiers) are plain ASCII and stay HOL strings; \<open>lit\<close> turns one into a JavaScript
  string where the code compares it with submitted data.
\<close>

type_synonym code_unit = "16 word"
type_synonym jsstring = "code_unit list"

definition lit :: "string \<Rightarrow> jsstring" where
  "lit s = map (\<lambda>c. of_nat (of_char c)) s"

text \<open>
  A number: NaN, the two infinities, or a finite value, kept as the rational it denotes.
  The two zeros are one value here: the code never tells them apart (\<^verbatim>\<open>-0 <= 0\<close> holds,
  so neither passes \<^verbatim>\<open>gt(0)\<close>).
\<close>

datatype jsnum = NaN | PosInfinity | NegInfinity | Finite rat

text \<open>\<open>ilog2 n\<close> is the position of the highest set bit of a positive integer.\<close>

function ilog2 :: "int \<Rightarrow> int" where
  "ilog2 n = (if n \<le> 1 then 0 else 1 + ilog2 (n div 2))"
  by pat_completeness auto
termination
  by (relation "measure nat") auto

declare ilog2.simps [simp del]

definition pow2 :: "int \<Rightarrow> rat" where
  "pow2 e = (if 0 \<le> e then 2 ^ nat e else 1 / 2 ^ nat (- e))"

text \<open>For \<open>a > 0\<close>, \<open>floor_log2 a\<close> is the \<open>k\<close> with \<open>2 ^ k \<le> a < 2 ^ (k + 1)\<close>.\<close>

definition floor_log2 :: "rat \<Rightarrow> int" where
  "floor_log2 a =
     (if 1 \<le> a then ilog2 \<lfloor>a\<rfloor> else - (ilog2 (\<lceil>1 / a\<rceil> - 1) + 1))"

definition round_half_even :: "rat \<Rightarrow> int" where
  "round_half_even x =
     (let f = \<lfloor>x\<rfloor>; d = x - of_int f
      in if d < 1 / 2 then f
         else if 1 / 2 < d then f + 1
         else if even f then f else f + 1)"

text \<open>
  Rounding of a mathematical value to the nearest binary64 value, ties to even: 53
  significant bits, the least exponent \<open>-1074\<close> (subnormals), overflow to infinity.
\<close>

definition round_double :: "rat \<Rightarrow> jsnum" where
  "round_double x =
     (if x = 0 then Finite 0
      else let a = \<bar>x\<bar>;
               e = max (floor_log2 a - 52) (- 1074);
               r = of_int (round_half_even (a / pow2 e)) * pow2 e
           in if 2 ^ 1024 \<le> r then (if 0 < x then PosInfinity else NegInfinity)
              else Finite (if 0 < x then r else - r))"

text \<open>The operators \<^verbatim>\<open>*\<close> and \<^verbatim>\<open><=\<close> on numbers.\<close>

fun js_times :: "jsnum \<Rightarrow> jsnum \<Rightarrow> jsnum" where
  "js_times (Finite x) (Finite y) = round_double (x * y)"
| "js_times NaN _ = NaN"
| "js_times _ NaN = NaN"
| "js_times (Finite x) PosInfinity =
     (if x = 0 then NaN else if 0 < x then PosInfinity else NegInfinity)"
| "js_times (Finite x) NegInfinity =
     (if x = 0 then NaN else if 0 < x then NegInfinity else PosInfinity)"
| "js_times PosInfinity (Finite y) =
     (if y = 0 then NaN else if 0 < y then PosInfinity else NegInfinity)"
| "js_times NegInfinity (Finite y) =
     (if y = 0 then NaN else if 0 < y then NegInfinity else PosInfinity)"
| "js_times PosInfinity PosInfinity = PosInfinity"
| "js_times PosInfinity NegInfinity = NegInfinity"
| "js_times NegInfinity PosInfinity = NegInfinity"
| "js_times NegInfinity NegInfinity = PosInfinity"

fun js_le :: "jsnum \<Rightarrow> jsnum \<Rightarrow> bool" where
  "js_le NaN _ = False"
| "js_le _ NaN = False"
| "js_le NegInfinity _ = True"
| "js_le _ PosInfinity = True"
| "js_le PosInfinity _ = False"
| "js_le _ NegInfinity = False"
| "js_le (Finite x) (Finite y) = (x \<le> y)"

definition is_integer :: "jsnum \<Rightarrow> bool" where
  "is_integer n = (case n of Finite x \<Rightarrow> of_int \<lfloor>x\<rfloor> = x | _ \<Rightarrow> False)"

subsection \<open>Strings\<close>

text \<open>
  The code units that \<^verbatim>\<open>String.prototype.trim\<close> and the numeric-string grammar skip:
  WhiteSpace and LineTerminator of the language.
\<close>

definition is_white_space :: "code_unit \<Rightarrow> bool" where
  "is_white_space c =
     (c \<in> set [0x9, 0xA, 0xB, 0xC, 0xD, 0x20, 0xA0, 0x1680, 0x2028, 0x2029, 0x202F,
               0x205F, 0x3000, 0xFEFF]
      \<or> (0x2000 \<le> c \<and> c \<le> 0x200A))"

definition trim :: "jsstring \<Rightarrow> jsstring" where
  "trim s = rev (dropWhile is_white_space (rev (dropWhile is_white_space s)))"

text \<open>\<^verbatim>\<open>s.split(c)[0]\<close> for a one-character separator: the part before its first occurrence.\<close>

definition split_first :: "code_unit \<Rightarrow> jsstring \<Rightarrow> jsstring" where
  "split_first c s = takeWhile (\<lambda>x. x \<noteq> c) s"

subsection \<open>Conversion of a string to a number\<close>

definition is_digit :: "code_unit \<Rightarrow> bool" where
  "is_digit c = (0x30 \<le> c \<and> c \<le> 0x39)"

text \<open>The value of a digit in a radix up to 16, if it is one.\<close>

definition digit_in :: "int \<Rightarrow> code_unit \<Rightarrow> int option" where
  "digit_in radix c =
     (let v = (if 0x30 \<le> c \<and> c \<le> 0x39 then uint c - 0x30
               else if 0x61 \<le> c \<and> c \<le> 0x66 then uint c - 0x61 + 10
               else if 0x41 \<le> c \<and> c \<le> 0x46 then uint c - 0x41 + 10
               else radix)
      in if v < radix then Some v else None)"

fun digits_value :: "int \<Rightarrow> int \<Rightarrow> jsstring \<Rightarrow> int option" where
  "digits_value radix acc [] = Some acc"
| "digits_value radix acc (c # cs) =
     (case digit_in radix c of
        None \<Rightarrow> None
      | Some v \<Rightarrow> digits_value radix (acc * radix + v) cs)"

definition scale10 :: "int \<Rightarrow> int \<Rightarrow> rat" where
  "scale10 n k = (if 0 \<le> k then of_int n * 10 ^ nat k else of_int n / 10 ^ nat (- k))"

text \<open>ExponentPart, or nothing: \<^verbatim>\<open>e\<close> or \<^verbatim>\<open>E\<close>, an optional sign, at least one digit.\<close>

definition exponent_part :: "jsstring \<Rightarrow> int option" where
  "exponent_part s =
     (case s of
        [] \<Rightarrow> Some 0
      | c # t \<Rightarrow>
          if c = 0x65 \<or> c = 0x45 then
            (case t of
               [] \<Rightarrow> None
             | d # u \<Rightarrow>
                 if d = 0x2D then (if u = [] then None else map_option uminus (digits_value 10 0 u))
                 else if d = 0x2B then (if u = [] then None else digits_value 10 0 u)
                 else digits_value 10 0 t)
          else None)"

text \<open>
  StrUnsignedDecimalLiteral: \<^verbatim>\<open>Infinity\<close>, or digits with an optional fraction and an
  optional exponent, with a digit on at least one side of the point.
\<close>

definition unsigned_decimal :: "jsstring \<Rightarrow> jsnum" where
  "unsigned_decimal s =
     (if s = lit ''Infinity'' then PosInfinity
      else let ip = takeWhile is_digit s;
               r = dropWhile is_digit s;
               pt = (r \<noteq> [] \<and> hd r = 0x2E);
               fp = (if pt then takeWhile is_digit (tl r) else []);
               r' = (if pt then dropWhile is_digit (tl r) else r)
           in if ip = [] \<and> fp = [] then NaN
              else (case (digits_value 10 0 (ip @ fp), exponent_part r') of
                      (Some n, Some ex) \<Rightarrow> round_double (scale10 n (ex - int (length fp)))
                    | _ \<Rightarrow> NaN))"

definition js_negate :: "jsnum \<Rightarrow> jsnum" where
  "js_negate n =
     (case n of
        NaN \<Rightarrow> NaN
      | PosInfinity \<Rightarrow> NegInfinity
      | NegInfinity \<Rightarrow> PosInfinity
      | Finite x \<Rightarrow> Finite (- x))"

definition radix_literal :: "int \<Rightarrow> jsstring \<Rightarrow> jsnum" where
  "radix_literal radix ds =
     (if ds = [] then NaN
      else (case digits_value radix 0 ds of
              None \<Rightarrow> NaN
            | Some n \<Rightarrow> round_double (of_int n)))"

text \<open>
  StringToNumber: surrounding white space is dropped; the empty string is \<open>0\<close>; then a
  hexadecimal, octal or binary integer literal (unsigned), or a signed decimal literal;
  anything else is NaN.
\<close>

definition StringToNumber :: "jsstring \<Rightarrow> jsnum" where
  "StringToNumber str =
     (let s = trim str
      in case s of
           [] \<Rightarrow> Finite 0
         | c # t \<Rightarrow>
             if c = 0x30 \<and> t \<noteq> [] \<and> hd t \<in> set [0x78, 0x58] then radix_literal 16 (tl t)
             else if c = 0x30 \<and> t \<noteq> [] \<and> hd t \<in> set [0x6F, 0x4F] then radix_literal 8 (tl t)
             else if c = 0x30 \<and> t \<noteq> [] \<and> hd t \<in> set [0x62, 0x42] then radix_literal 2 (tl t)
             else if c = 0x2B then unsigned_decimal t
             else if c = 0x2D then js_negate (unsigned_decimal t)
             else unsigned_decimal s)"

text \<open>
  The values the actions handle: what \<^verbatim>\<open>FormData.get\<close> yields (a string, a file, or
  \<^verbatim>\<open>null\<close> for a missing name), the numbers coercion produces, and \<^verbatim>\<open>undefined\<close>.
\<close>

datatype jsvalue = JUndefined | JNull | JString jsstring | JNumber jsnum | JFile

text \<open>\<^verbatim>\<open>Number(v)\<close>.\<close>

fun Number :: "jsvalue \<Rightarrow> jsnum" where
  "Number JUndefined = NaN"
| "Number JNull = Finite 0"
| "Number (JString s) = StringToNumber s"
| "Number (JNumber n) = n"
| "Number JFile = NaN"

text \<open>\<^verbatim>\<open>a * b\<close>: both operands are converted to numbers.\<close>

definition js_mul :: "jsvalue \<Rightarrow> jsvalue \<Rightarrow> jsvalue" where
  "js_mul a b = JNumber (js_times (Number a) (Number b))"

section \<open>The validation library\<close>

text \<open>
  The schemas of the source are built with the zod combinators. A schema is data: the
  kind of value it accepts, its custom messages and its list of checks, in the order
  the source chains them. The format tests behind \<^verbatim>\<open>.email()\<close>, \<^verbatim>\<open>.url()\<close> and
  \<^verbatim>\<open>.uuid()\<close> are the library's own (regular expressions and the URL parser of the
  platform): a schema takes them from the record \<open>zod_formats\<close>.
\<close>

record zod_formats =
  email_format :: "jsstring \<Rightarrow> bool"
  url_format :: "jsstring \<Rightarrow> bool"
  uuid_format :: "jsstring \<Rightarrow> bool"

datatype issue_code = invalid_type | invalid_enum_value | too_small | too_big | invalid_string

text \<open>
  The message of an issue: the text the schema gives, or the library's default text for
  the issue code (not spelled out here).
\<close>

datatype zmessage = Message string | DefaultMessage issue_code

datatype string_check =
    Trim
  | Min nat string
  | Max nat string
  | Email "jsstring \<Rightarrow> bool" string
  | Url "jsstring \<Rightarrow> bool" string
  | Uuid "jsstring \<Rightarrow> bool"

datatype number_check = Gt jsnum string

text \<open>
  \<open>ZString required_error invalid_type_error checks\<close>, \<open>ZNumber coerce checks\<close>,
  \<open>ZEnum values invalid_type_error\<close>.
\<close>

datatype zschema =
    ZString "string option" "string option" "string_check list"
  | ZNumber bool "number_check list"
  | ZEnum "string list" "string option"

text \<open>
  The message of a type mismatch: \<^verbatim>\<open>required_error\<close> when the value is \<^verbatim>\<open>undefined\<close>,
  \<^verbatim>\<open>invalid_type_error\<close> otherwise, the default when the schema gives none.
\<close>

definition type_error :: "string option \<Rightarrow> string option \<Rightarrow> jsvalue \<Rightarrow> zmessage" where
  "type_error rqe ite v =
     (case (if v = JUndefined then rqe else ite) of
        None \<Rightarrow> DefaultMessage invalid_type
      | Some m \<Rightarrow> Message m)"

text \<open>
  The checks of a string schema run in order on the current value; \<open>Trim\<close> replaces the
  value, every other check that fails adds an issue and the run goes on.
\<close>

fun run_checks :: "string_check list \<Rightarrow> jsstring \<Rightarrow> zmessage list \<Rightarrow> jsstring \<times> zmessage list" where
  "run_checks [] s iss = (s, iss)"
| "run_checks (Trim # cs) s iss = run_checks cs (trim s) iss"
| "run_checks (Min n m # cs) s iss =
     run_checks cs s (if length s < n then iss @ [Message m] else iss)"
| "run_checks (Max n m # cs) s iss =
     run_checks cs s (if n < length s then iss @ [Message m] else iss)"
| "run_checks (Email ok m # cs) s iss =
     run_checks cs s (if ok s then iss else iss @ [Message m])"
| "run_checks (Url ok m # cs) s iss =
     run_checks cs s (if ok s then iss else iss @ [Message m])"
| "run_checks (Uuid ok # cs) s iss =
     run_checks cs s (if ok s then iss else iss @ [DefaultMessage invalid_string])"

fun number_checks :: "number_check list \<Rightarrow> jsnum \<Rightarrow> zmessage list" where
  "number_checks [] n = []"
| "number_checks (Gt b m # cs) n =
     (if js_le n b then [Message m] else []) @ number_checks cs n"

text \<open>Parsing one value: the issues, or the parsed (trimmed, coerced) value.\<close>

fun parse :: "zschema \<Rightarrow> jsvalue \<Rightarrow> zmessage list + jsvalue" where
  "parse (ZString rqe ite cs) v =
     (case v of
        JString s \<Rightarrow>
          (case run_checks cs s [] of
             (s', iss) \<Rightarrow> if iss = [] then Inr (JString s') else Inl iss)
      | _ \<Rightarrow> Inl [type_error rqe ite v])"
| "parse (ZNumber coerce cs) v =
     (case (if coerce then JNumber (Number v) else v) of
        JNumber n \<Rightarrow>
          if n = NaN then Inl [DefaultMessage invalid_type]
          else (case number_checks cs n of
                  [] \<Rightarrow> Inr (JNumber n)
                | iss \<Rightarrow> Inl iss)
      | _ \<Rightarrow> Inl [type_error None None v])"
| "parse (ZEnum vals ite) v =
     (case v of
        JString s \<Rightarrow>
          if s \<in> set (map lit vals) then Inr (JString s)
          else Inl [DefaultMessage invalid_enum_value]
      | _ \<Rightarrow> Inl [type_error None ite v])"

text \<open>
  An object schema is its shape, the fields in declaration order; \<^verbatim>\<open>omit\<close> drops fields.
  An object is the list of its properties; a property it lacks reads as \<^verbatim>\<open>undefined\<close>.
\<close>

type_synonym shape = "(string \<times> zschema) list"
type_synonym jsobject = "(string \<times> jsvalue) list"

definition omit :: "string list \<Rightarrow> shape \<Rightarrow> shape" where
  "omit ks sh = filter (\<lambda>(k, _). k \<notin> set ks) sh"

definition get_prop :: "jsobject \<Rightarrow> string \<Rightarrow> jsvalue" where
  "get_prop obj k = (case map_of obj k of None \<Rightarrow> JUndefined | Some v \<Rightarrow> v)"

text \<open>
  Every field of the shape is parsed, on the property of that name; the issues carry the
  field as their path. Properties outside the shape are dropped from the data.
\<close>

fun parse_fields :: "shape \<Rightarrow> jsobject \<Rightarrow> (string \<times> zmessage) list \<times> jsobject" where
  "parse_fields [] obj = ([], [])"
| "parse_fields ((k, sch) # rest) obj =
     (case parse_fields rest obj of
        (iss, dat) \<Rightarrow>
          (case parse sch (get_prop obj k) of
             Inl ms \<Rightarrow> (map (Pair k) ms @ iss, dat)
           | Inr v \<Rightarrow> (iss, (k, v) # dat)))"

datatype safe_parse_result = Success jsobject | Failure "(string \<times> zmessage) list"

definition safeParse :: "shape \<Rightarrow> jsobject \<Rightarrow> safe_parse_result" where
  "safeParse sh obj =
     (case parse_fields sh obj of
        (iss, dat) \<Rightarrow> if iss = [] then Success dat else Failure iss)"

text \<open>
  \<^verbatim>\<open>error.flatten().fieldErrors\<close>: the messages grouped by field, a field appearing when
  its first issue does.
\<close>

type_synonym field_errors = "(string \<times> zmessage list) list"

definition push_error :: "field_errors \<Rightarrow> string \<times> zmessage \<Rightarrow> field_errors" where
  "push_error fe =
     (\<lambda>(k, m). case map_of fe k of
        None \<Rightarrow> fe @ [(k, [m])]
      | Some _ \<Rightarrow> map (\<lambda>(j, ms). if j = k then (j, ms @ [m]) else (j, ms)) fe)"

definition fieldErrors :: "(string \<times> zmessage) list \<Rightarrow> field_errors" where
  "fieldErrors iss = foldl push_error [] iss"

section \<open>The environment of an action\<close>

text \<open>
  A submitted form: the entries in order, each a string or a file. \<^verbatim>\<open>get\<close> yields the
  first entry of the name, \<^verbatim>\<open>null\<close> when there is none.
\<close>

datatype form_entry = FormString jsstring | FormFile

type_synonym formdata = "(string \<times> form_entry) list"

definition get :: "formdata \<Rightarrow> string \<Rightarrow> jsvalue" where
  "get fd k =
     (case map_of fd k of
        None \<Rightarrow> JNull
      | Some (FormString s) \<Rightarrow> JString s
      | Some FormFile \<Rightarrow> JFile)"

text \<open>
  The statements the actions send: the table, the columns with the interpolated
  parameters, and for an insert the column of its \<^verbatim>\<open>ON CONFLICT (...) DO NOTHING\<close> clause,
  if it has one; for an update and a delete the column and the parameter of the
  \<^verbatim>\<open>WHERE\<close> clause.
\<close>

type_synonym row = "(string \<times> jsvalue) list"

datatype sqlstmt =
    Insert string row "string option"
  | Update string row string jsvalue
  | Delete string string jsvalue

text \<open>
  What an action does to the world is recorded in order: the statements sent to storage
  (whether they succeed or fail) and the paths marked stale. The storage itself is a
  collaborator: given a statement and the stored data it fails, or yields the new data.
\<close>

datatype effect = Query sqlstmt | RevalidatePath string

record 'db world =
  db :: 'db
  effects :: "effect list"

type_synonym 'db backend = "sqlstmt \<Rightarrow> 'db \<Rightarrow> string + 'db"

text \<open>\<open>sql\<close> returns whether the awaited statement resolved (\<open>False\<close>: it threw).\<close>

definition sql :: "'db backend \<Rightarrow> sqlstmt \<Rightarrow> 'db world \<Rightarrow> bool \<times> 'db world" where
  "sql be q w =
     (case be q (db w) of
        Inl e \<Rightarrow> (False, w\<lparr>effects := effects w @ [Query q]\<rparr>)
      | Inr d \<Rightarrow> (True, w\<lparr>db := d, effects := effects w @ [Query q]\<rparr>))"

text \<open>\<^verbatim>\<open>revalidatePath\<close> marks a path stale; it is taken to return normally.\<close>

definition revalidatePath :: "string \<Rightarrow> 'db world \<Rightarrow> 'db world" where
  "revalidatePath p w = w\<lparr>effects := effects w @ [RevalidatePath p]\<rparr>"

text \<open>
  How an action ends: it returns a value, it leaves through \<^verbatim>\<open>redirect\<close> (which never
  returns), or an error escapes it.
\<close>

datatype thrown = AuthError string | OtherError string

datatype 'a outcome = Returns 'a | Redirects string | Throws thrown

text \<open>The object an action returns: \<^verbatim>\<open>{errors, message}\<close> or \<^verbatim>\<open>{message}\<close>.\<close>

datatype action_state = ActionState (errors: "field_errors option") (message: string)

section \<open>The invoice actions\<close>

definition FormSchema :: shape where
  "FormSchema =
     [(''id'', ZString None None []),
      (''customerId'', ZString None (Some ''Please select a customer.'') []),
      (''amount'', ZNumber True [Gt (Finite 0) ''Please enter an amount greater than $0.'']),
      (''status'', ZEnum [''pending'', ''paid''] (Some ''Please select an invoice status.'')),
      (''date'', ZString None None [])]"

definition CreateInvoice :: shape where
  "CreateInvoice = omit [''id'', ''date''] FormSchema"

text \<open>
  \<open>now\<close> is what \<^verbatim>\<open>new Date().toISOString()\<close> yields when the action runs; \<open>be\<close> is the
  storage behind \<^verbatim>\<open>sql\<close>. \<open>prevState\<close> is received and not used.
\<close>

definition createInvoice ::
  "'db backend \<Rightarrow> jsstring \<Rightarrow> action_state \<Rightarrow> formdata \<Rightarrow> 'db world
     \<Rightarrow> action_state outcome \<times> 'db world" where
  "createInvoice be now prevState formData w =
     (case safeParse CreateInvoice
             [(''customerId'', get formData ''customerId''),
              (''amount'', get formData ''amount''),
              (''status'', get formData ''status'')] of
        Failure iss \<Rightarrow>
          (Returns (ActionState (Some (fieldErrors iss))
                      ''Missing Fields. Failed to Create Invoice.''), w)
      | Success data \<Rightarrow>
          (let customerId = get_prop data ''customerId'';
               amount = get_prop data ''amount'';
               status = get_prop data ''status'';
               amountInCents = js_mul amount (JNumber (Finite 100));
               date = JString (split_first 0x54 now)
           in case sql be (Insert ''invoices''
                             [(''customer_id'', customerId), (''amount'', amountInCents),
                              (''status'', status), (''date'', date)] None) w of
                (False, w') \<Rightarrow>
                  (Returns (ActionState None ''Database Error: Failed to Create Invoice.''), w')
              | (True, w') \<Rightarrow>
                  (Redirects ''/dashboard/invoices'',
                   revalidatePath ''/dashboard/invoices'' w')))"

definition UpdateInvoice :: shape where
  "UpdateInvoice = omit [''id'', ''date''] FormSchema"

definition updateInvoice ::
  "'db backend \<Rightarrow> jsstring \<Rightarrow> action_state \<Rightarrow> formdata \<Rightarrow> 'db world
     \<Rightarrow> action_state outcome \<times> 'db world" where
  "updateInvoice be id' prevState formData w =
     (case safeParse UpdateInvoice
             [(''customerId'', get formData ''customerId''),
              (''amount'', get formData ''amount''),
              (''status'', get formData ''status'')] of
        Failure iss \<Rightarrow>
          (Returns (ActionState (Some (fieldErrors iss))
                      ''Missing Fields. Failed to Update Invoice.''), w)
      | Success data \<Rightarrow>
          (let customerId = get_prop data ''customerId'';
               amount = get_prop data ''amount'';
               status = get_prop data ''status'';
               amountInCents = js_mul amount (JNumber (Finite 100))
           in case sql be (Update ''invoices''
                             [(''customer_id'', customerId), (''amount'', amountInCents),
                              (''status'', status)] ''id'' (JString id')) w of
                (False, w') \<Rightarrow>
                  (Returns (ActionState None ''Database Error: Failed to Update Invoice.''), w')
              | (True, w') \<Rightarrow>
                  (Redirects ''/dashboard/invoices'',
                   revalidatePath ''/dashboard/invoices'' w')))"

text \<open>
  \<open>deleteInvoice\<close> marks the path inside the \<^verbatim>\<open>try\<close>, after the statement, and returns
  nothing (\<open>None\<close>) when the statement went through; it has no \<^verbatim>\<open>redirect\<close>.
\<close>

definition deleteInvoice ::
  "'db backend \<Rightarrow> jsstring \<Rightarrow> 'db world \<Rightarrow> action_state option outcome \<times> 'db world" where
  "deleteInvoice be id' w =
     (case sql be (Delete ''invoices'' ''id'' (JString id')) w of
        (True, w') \<Rightarrow> (Returns None, revalidatePath ''/dashboard/invoices'' w')
      | (False, w') \<Rightarrow>
          (Returns (Some (ActionState None ''Database Error: Failed to Delete Invoice.'')), w'))"

section \<open>Authentication\<close>

text \<open>
  \<open>signIn\<close> is the external provider: for a provider name and the form it resolves
  (\<open>None\<close>) or throws. An \<open>AuthError\<close> carries its \<^verbatim>\<open>type\<close>.
\<close>

definition authenticate ::
  "(string \<Rightarrow> formdata \<Rightarrow> thrown option) \<Rightarrow> string option \<Rightarrow> formdata
     \<Rightarrow> string option outcome" where
  "authenticate signIn prevState formData =
     (case signIn ''credentials'' formData of
        None \<Rightarrow> Returns None
      | Some error \<Rightarrow>
          (case error of
             AuthError type \<Rightarrow>
               if type = ''CredentialsSignin'' then Returns (Some ''Invalid credentials.'')
               else Returns (Some ''Something went wrong.'')
           | _ \<Rightarrow> Throws error))"

section \<open>The customer actions\<close>

definition FormCustomerSchema :: "zod_formats \<Rightarrow> shape" where
  "FormCustomerSchema zod =
     [(''id'', ZString None None [Trim, Uuid (uuid_format zod)]),
      (''name'', ZString (Some ''Name is required'') (Some ''Name must be a string'')
                   [Trim, Min 3 ''Must be 2 or more characters long'',
                    Max 20 ''Must be 20 or fewer characters long'']),
      (''email'', ZString (Some ''Email is required'') (Some ''Email must be a string'')
                    [Trim, Email (email_format zod) ''Invalid email address'']),
      (''image'', ZString (Some ''URL Image is required'') (Some ''URL Image must be a string'')
                    [Trim, Url (url_format zod) ''Invalid url''])]"

definition CreateCustomer :: "zod_formats \<Rightarrow> shape" where
  "CreateCustomer zod = omit [''id'', ''image''] (FormCustomerSchema zod)"

text \<open>\<open>uuid\<close> is what \<^verbatim>\<open>crypto.randomUUID()\<close> yields when the action runs.\<close>

definition createCustomer ::
  "zod_formats \<Rightarrow> 'db backend \<Rightarrow> jsstring \<Rightarrow> action_state \<Rightarrow> formdata \<Rightarrow> 'db world
     \<Rightarrow> action_state outcome \<times> 'db world" where
  "createCustomer zod be uuid prevState formData w =
     (case safeParse (CreateCustomer zod)
             [(''name'', get formData ''name''),
              (''email'', get formData ''email'')] of
        Failure iss \<Rightarrow>
          (Returns (ActionState (Some (fieldErrors iss))
                      ''Missing Fields. Failed to Add Customer''), w)
      | Success data \<Rightarrow>
          (let name = get_prop data ''name'';
               email = get_prop data ''email'';
               id' = JString uuid
           in case sql be (Insert ''customers''
                             [(''id'', id'), (''name'', name), (''email'', email)]
                             (Some ''id'')) w of
                (False, w') \<Rightarrow>
                  (Returns (ActionState None ''Database Error: Failed to Add Customer.''), w')
              | (True, w') \<Rightarrow>
                  (Redirects ''/dashboard/customers'',
                   revalidatePath ''/dashboard/customers'' w')))"

definition UpdateCustomer :: "zod_formats \<Rightarrow> shape" where
  "UpdateCustomer zod = omit [''id'', ''image''] (FormCustomerSchema zod)"

definition updateCustomer ::
  "zod_formats \<Rightarrow> 'db backend \<Rightarrow> jsstring \<Rightarrow> action_state \<Rightarrow> formdata \<Rightarrow> 'db world
     \<Rightarrow> action_state outcome \<times> 'db world" where
  "updateCustomer zod be id' prevState formData w =
     (case safeParse (UpdateCustomer zod)
             [(''name'', get formData ''name''),
              (''email'', get formData ''email'')] of
        Failure iss \<Rightarrow>
          (Returns (ActionState (Some (fieldErrors iss))
                      ''Missing Fields. Failed to Add Customer''), w)
      | Success data \<Rightarrow>
          (let name = get_prop data ''name'';
               email = get_prop data ''email''
           in case sql be (Update ''customers''
                             [(''name'', name), (''email'', email)] ''id'' (JString id')) w of
                (False, w') \<Rightarrow>
                  (Returns (ActionState None ''Database Error: Failed to Update Invoice.''), w')
              | (True, w') \<Rightarrow>
                  (Redirects ''/dashboard/customers'',
                   revalidatePath ''/dashboard/customers'' w')))"

section \<open>Reading the effects\<close>

text \<open>The paths an effect list marks stale, and the statements it sends.\<close>

definition revalidated :: "effect list \<Rightarrow> string list" where
  "revalidated es = concat (map (\<lambda>e. case e of RevalidatePath p \<Rightarrow> [p] | _ \<Rightarrow> []) es)"

definition queries :: "effect list \<Rightarrow> sqlstmt list" where
  "queries es = concat (map (\<lambda>e. case e of Query q \<Rightarrow> [q] | _ \<Rightarrow> []) es)"

section \<open>A relational store\<close>

text \<open>
  A table is the list of its rows, a store gives the rows of every table. \<open>has_value\<close>
  is the test of a \<^verbatim>\<open>WHERE column = value\<close> clause on a row, \<open>collides\<close> tells whether
  a new row has, in the given column, the value of some stored row, and \<open>set_columns\<close>
  overwrites the named columns of a row.
\<close>

type_synonym store = "string \<Rightarrow> row list"

definition has_value :: "string \<Rightarrow> jsvalue \<Rightarrow> row \<Rightarrow> bool" where
  "has_value c v r = (map_of r c = Some v)"

definition collides :: "string \<Rightarrow> row \<Rightarrow> row list \<Rightarrow> bool" where
  "collides c r rs =
     (case map_of r c of
        None \<Rightarrow> False
      | Some v \<Rightarrow> list_ex (has_value c v) rs)"

definition set_columns :: "row \<Rightarrow> row \<Rightarrow> row" where
  "set_columns sets r =
     map (\<lambda>(c, v). (c, case map_of sets c of None \<Rightarrow> v | Some v' \<Rightarrow> v')) r
     @ filter (\<lambda>(c, v). map_of r c = None) sets"

text \<open>
  Modelled from the spec: the constraints the database keeps on the \<^verbatim>\<open>invoices\<close> table,
  whose schema is not part of the sources. The data model has the customer reference
  enforced by the database (it must be the \<^verbatim>\<open>id\<close> of a stored customer) and the amount
  stored as integer minor units. A statement is checked on the columns it supplies.
\<close>

definition invoice_constraints :: "store \<Rightarrow> row \<Rightarrow> bool" where
  "invoice_constraints s r =
     ((case map_of r ''customer_id'' of
         None \<Rightarrow> True
       | Some v \<Rightarrow> list_ex (has_value ''id'' v) (s ''customers''))
      \<and> (case map_of r ''amount'' of
            None \<Rightarrow> True
          | Some v \<Rightarrow> (case v of JNumber n \<Rightarrow> is_integer n | _ \<Rightarrow> False)))"

definition admits :: "store \<Rightarrow> string \<Rightarrow> row \<Rightarrow> bool" where
  "admits s t r = (if t = ''invoices'' then invoice_constraints s r else True)"

text \<open>
  Modelled from the spec: the relational store behind \<^verbatim>\<open>sql\<close>. The schema of the tables
  and the database engine are not part of the sources, so the store follows the
  specification of the persistence writer and of the data model: the primary key of a
  row is its \<^verbatim>\<open>id\<close> column; an insert with a conflict clause does nothing and raises
  nothing when a stored row has the same value in the conflict column; an insert without
  one fails on a colliding primary key; a row that breaks a constraint of its table is
  rejected; an update replaces the named columns of the rows its \<^verbatim>\<open>WHERE\<close> clause
  matches, unless the new values break a constraint, and a delete removes the rows it
  matches, none matching being a silent no-op for both. A row inserted without an
  \<^verbatim>\<open>id\<close> has none here: the default the database would give it is outside the sources.
\<close>

fun relational :: "store backend" where
  "relational (Insert t r cf) s =
     (case cf of
        Some c \<Rightarrow>
          if collides c r (s t) then Inr s
          else if admits s t r then Inr (s(t := s t @ [r]))
          else Inl ''violates a constraint of the table''
      | None \<Rightarrow>
          if collides ''id'' r (s t) then Inl ''duplicate key value violates unique constraint''
          else if admits s t r then Inr (s(t := s t @ [r]))
          else Inl ''violates a constraint of the table'')"
| "relational (Update t sets c v) s =
     (if list_ex (has_value c v) (s t) then
        (if admits s t sets then
           Inr (s(t := map (\<lambda>r. if has_value c v r then set_columns sets r else r) (s t)))
         else Inl ''violates a constraint of the table'')
      else Inr s)"
| "relational (Delete t c v) s =
     Inr (s(t := filter (\<lambda>r. \<not> has_value c v r) (s t)))"

section \<open>Submissions\<close>

text \<open>
  The objects the actions hand to \<^verbatim>\<open>safeParse\<close>, and what it means for a submission to
  pass validation: \<^verbatim>\<open>validatedFields.success\<close>.
\<close>

definition invoice_input :: "formdata \<Rightarrow> jsobject" where
  "invoice_input formData =
     [(''customerId'', get formData ''customerId''),
      (''amount'', get formData ''amount''),
      (''status'', get formData ''status'')]"

definition customer_input :: "formdata \<Rightarrow> jsobject" where
  "customer_input formData =
     [(''name'', get formData ''name''),
      (''email'', get formData ''email'')]"

definition passes :: "shape \<Rightarrow> jsobject \<Rightarrow> bool" where
  "passes sh obj = (case safeParse sh obj of Success _ \<Rightarrow> True | Failure _ \<Rightarrow> False)"

subsection \<open>Example data\<close>

text \<open>Stores, a storage that is down, and submitted forms, for running the actions.\<close>

definition empty_store :: store where
  "empty_store = (\<lambda>t. [])"

definition one_invoice_store :: store where
  "one_invoice_store =
     empty_store(''invoices'' :=
       [[(''id'', JString (lit ''a1'')), (''customer_id'', JString (lit ''123'')),
         (''amount'', JNumber (Finite 4500)), (''status'', JString (lit ''paid'')),
         (''date'', JString (lit ''2024-03-09''))]])"


definition taken_uuid :: jsstring where
  "taken_uuid = lit ''3958dc9e-712f-4377-85e9-fec4b6a6442a''"

definition one_customer_store :: store where
  "one_customer_store =
     empty_store(''customers'' :=
       [[(''id'', JString taken_uuid), (''name'', JString (lit ''Bob Ray'')),
         (''email'', JString (lit ''bob@example.com''))]])"

definition offline :: "'db backend" where
  "offline q s = Inl ''connection refused''"

definition paid_invoice_form :: formdata where
  "paid_invoice_form =
     [(''customerId'', FormString (lit ''123'')),
      (''amount'', FormString (lit ''45.00'')),
      (''status'', FormString (lit ''paid''))]"

definition negative_amount_form :: formdata where
  "negative_amount_form =
     [(''customerId'', FormString (lit ''123'')),
      (''amount'', FormString (lit ''-5'')),
      (''status'', FormString (lit ''pending''))]"

definition fractional_invoice_form :: formdata where
  "fractional_invoice_form =
     [(''customerId'', FormString (lit ''123'')),
      (''amount'', FormString (lit ''1.1'')),
      (''status'', FormString (lit ''paid''))]"

definition short_name_form :: formdata where
  "short_name_form =
     [(''name'', FormString (lit '' Al '')),
      (''email'', FormString (lit ''nobody''))]"

definition customer_form :: formdata where
  "customer_form =
     [(''name'', FormString (lit ''Alice Doe'')),
      (''email'', FormString (lit ''alice@example.com'')),
      (''image'', FormString (lit ''not a url''))]"

definition customer_form_with_url :: formdata where
  "customer_form_with_url =
     [(''name'', FormString (lit ''Alice Doe'')),
      (''email'', FormString (lit ''alice@example.com'')),
      (''image'', FormString (lit ''https://example.com/alice.png''))]"

text \<open>
  Format tests to run the customer actions with. They stand in for the library's tests
  in the examples only (an address has one \<^verbatim>\<open>@\<close> with text on both sides, a URL starts
  with letters and a colon); every general statement below holds for all format tests.
\<close>

definition address_like :: "jsstring \<Rightarrow> bool" where
  "address_like s =
     (let l = takeWhile (\<lambda>c. c \<noteq> 0x40) s; r = dropWhile (\<lambda>c. c \<noteq> 0x40) s
      in l \<noteq> [] \<and> 1 < length r \<and> 0x40 \<notin> set (tl r))"

definition scheme_like :: "jsstring \<Rightarrow> bool" where
  "scheme_like s =
     (let r = dropWhile (\<lambda>c. (0x61 \<le> c \<and> c \<le> 0x7A) \<or> (0x41 \<le> c \<and> c \<le> 0x5A)) s
      in r \<noteq> s \<and> r \<noteq> [] \<and> hd r = 0x3A)"

definition example_formats :: zod_formats where
  "example_formats =
     \<lparr>email_format = address_like, url_format = scheme_like,
      uuid_format = (\<lambda>s. length s = 36)\<rparr>"

section \<open>Evaluation of numbers\<close>

lemma floor_rat_numeral_div [simp]:
  "\<lfloor>numeral a / numeral b :: rat\<rfloor> = numeral a div numeral b"
  by (metis floor_divide_of_int_eq of_int_numeral)

lemma ceiling_rat_numeral_div [simp]:
  "\<lceil>numeral a / numeral b :: rat\<rceil> = - (- numeral a div numeral b)"
  by (metis ceiling_divide_eq_div of_int_numeral)

lemmas string_number_defs =
  lit_def StringToNumber_def trim_def is_white_space_def unsigned_decimal_def is_digit_def
  digit_in_def exponent_part_def scale10_def Let_def

lemmas round_double_defs =
  round_double_def pow2_def round_half_even_def Let_def

lemma floor_log2_45: "floor_log2 45 = 5"
  by (simp add: floor_log2_def ilog2.simps)


lemma number_45: "StringToNumber (lit ''45.00'') = Finite 45"
proof -
  have "StringToNumber (lit ''45.00'') = round_double 45"
    by (simp add: string_number_defs)
  also have "round_double 45 = Finite 45"
    by (simp add: round_double_defs floor_log2_45)
  finally show ?thesis .
qed


lemma floor_log2_5: "floor_log2 5 = 2"
  by (simp add: floor_log2_def ilog2.simps)

lemma number_minus_5: "StringToNumber (lit ''-5'') = Finite (- 5)"
proof -
  have "StringToNumber (lit ''-5'') = js_negate (round_double 5)"
    by (simp add: string_number_defs)
  also have "round_double 5 = Finite 5"
    by (simp add: round_double_defs floor_log2_5)
  finally show ?thesis by (simp add: js_negate_def)
qed

lemma floor_log2_11_10: "floor_log2 (11 / 10) = 0"
  by (simp add: floor_log2_def ilog2.simps)

lemma number_1_1: "StringToNumber (lit ''1.1'') = Finite (2476979795053773 / 2251799813685248)"
proof -
  have "StringToNumber (lit ''1.1'') = round_double (11 / 10)"
    by (simp add: string_number_defs)
  also have "round_double (11 / 10) = Finite (2476979795053773 / 2251799813685248)"
    by (simp add: round_double_defs floor_log2_11_10)
  finally show ?thesis .
qed

lemma floor_log2_110: "floor_log2 (2476979795053773 / 2251799813685248 * 100) = 6"
  by (simp add: floor_log2_def ilog2.simps)

lemma times_1_1:
  "js_times (Finite (2476979795053773 / 2251799813685248)) (Finite 100) =
     Finite (7740561859543041 / 70368744177664)"
  unfolding js_times.simps
  by (simp add: round_double_defs floor_log2_110 del: times_divide_eq_left)

section \<open>Field errors\<close>

lemma map_of_push_error:
  "map_of (push_error fe (k', m)) k =
     (if k = k' then Some ((case map_of fe k of None \<Rightarrow> [] | Some ms \<Rightarrow> ms) @ [m])
      else map_of fe k)"
proof (cases "map_of fe k'")
  case None
  then show ?thesis
    by (auto simp add: push_error_def map_add_def split: option.splits)
next
  case (Some ms0)
  have upd: "map_of (map (\<lambda>(j, ms). if j = k' then (j, ms @ [m]) else (j, ms)) xs) k =
          (if k = k' then map_option (\<lambda>ms. ms @ [m]) (map_of xs k) else map_of xs k)" for xs
    by (induction xs) auto
  from Some show ?thesis
    by (simp add: push_error_def upd)
qed

lemma map_of_foldl_push_error:
  "map_of (foldl push_error fe iss) k =
     (case map snd (filter (\<lambda>km. fst km = k) iss) of
        [] \<Rightarrow> map_of fe k
      | ms \<Rightarrow> Some ((case map_of fe k of None \<Rightarrow> [] | Some ms0 \<Rightarrow> ms0) @ ms))"
proof (induction iss arbitrary: fe)
  case Nil
  then show ?case by simp
next
  case (Cons km iss)
  obtain k' m where km: "km = (k', m)" by (cases km)
  show ?case
    unfolding km foldl_Cons Cons.IH map_of_push_error
    by (auto split: list.splits option.splits)
qed

lemma map_of_fieldErrors:
  "map_of (fieldErrors iss) k =
     (case map snd (filter (\<lambda>km. fst km = k) iss) of [] \<Rightarrow> None | ms \<Rightarrow> Some ms)"
  by (simp add: fieldErrors_def map_of_foldl_push_error split: list.splits)

section \<open>The invoice schema\<close>

lemma CreateInvoice_shape:
  "CreateInvoice =
     [(''customerId'', ZString None (Some ''Please select a customer.'') []),
      (''amount'', ZNumber True [Gt (Finite 0) ''Please enter an amount greater than $0.'']),
      (''status'', ZEnum [''pending'', ''paid''] (Some ''Please select an invoice status.''))]"
  by (simp add: CreateInvoice_def omit_def FormSchema_def)

lemma UpdateInvoice_shape: "UpdateInvoice = CreateInvoice"
  by (simp add: CreateInvoice_def UpdateInvoice_def)

lemma parse_plain_string:
  "parse (ZString None (Some m) []) v =
     (case v of
        JString s \<Rightarrow> Inr v
      | JUndefined \<Rightarrow> Inl [DefaultMessage invalid_type]
      | _ \<Rightarrow> Inl [Message m])"
  by (cases v) (simp_all add: type_error_def)

lemma parse_amount:
  "parse (ZNumber True [Gt (Finite 0) m]) v =
     (if Number v = NaN then Inl [DefaultMessage invalid_type]
      else if js_le (Number v) (Finite 0) then Inl [Message m]
      else Inr (JNumber (Number v)))"
  by simp

lemma parse_status:
  "parse (ZEnum [''pending'', ''paid''] (Some m)) v =
     (case v of
        JString s \<Rightarrow>
          if s = lit ''pending'' \<or> s = lit ''paid'' then Inr v
          else Inl [DefaultMessage invalid_enum_value]
      | JUndefined \<Rightarrow> Inl [DefaultMessage invalid_type]
      | _ \<Rightarrow> Inl [Message m])"
  by (cases v) (auto simp add: type_error_def)

text \<open>
  A submission passes the invoice schema exactly when the customer is a string, the
  amount coerces to a number above zero, and the status is one of the two words.
\<close>

lemma passes_CreateInvoice_iff:
  "passes CreateInvoice (invoice_input fd) \<longleftrightarrow>
     (\<exists>c. get fd ''customerId'' = JString c)
     \<and> Number (get fd ''amount'') \<noteq> NaN
     \<and> \<not> js_le (Number (get fd ''amount'')) (Finite 0)
     \<and> (get fd ''status'' = JString (lit ''pending'')
        \<or> get fd ''status'' = JString (lit ''paid''))"
  unfolding passes_def invoice_input_def safeParse_def CreateInvoice_shape
  by (auto simp add: get_prop_def parse_plain_string parse_amount parse_status
      split: jsvalue.splits)

lemma passes_UpdateInvoice: "passes UpdateInvoice obj = passes CreateInvoice obj"
  by (simp add: UpdateInvoice_shape)

lemma safeParse_CreateInvoice_Success:
  assumes "passes CreateInvoice (invoice_input fd)"
  shows "safeParse CreateInvoice
           [(''customerId'', get fd ''customerId''), (''amount'', get fd ''amount''),
            (''status'', get fd ''status'')] =
         Success [(''customerId'', get fd ''customerId''),
                  (''amount'', JNumber (Number (get fd ''amount''))),
                  (''status'', get fd ''status'')]"
  using assms unfolding passes_CreateInvoice_iff
  unfolding safeParse_def CreateInvoice_shape
  by (auto simp add: get_prop_def parse_plain_string parse_amount parse_status)

lemma get_paid_invoice_form:
  "get paid_invoice_form ''customerId'' = JString (lit ''123'')"
  "get paid_invoice_form ''amount'' = JString (lit ''45.00'')"
  "get paid_invoice_form ''status'' = JString (lit ''paid'')"
  by (simp_all add: get_def paid_invoice_form_def)

lemma passes_paid_invoice_form: "passes CreateInvoice (invoice_input paid_invoice_form)"
  by (simp add: passes_CreateInvoice_iff get_paid_invoice_form number_45)

lemma date_of_now: "split_first 0x54 (lit ''2024-03-09T14:05:00.000Z'') = lit ''2024-03-09''"
  by (simp add: split_first_def lit_def)

lemma get_negative_amount_form:
  "get negative_amount_form ''amount'' = JString (lit ''-5'')"
  by (simp add: get_def negative_amount_form_def)

lemma get_fractional_invoice_form:
  "get fractional_invoice_form ''customerId'' = JString (lit ''123'')"
  "get fractional_invoice_form ''amount'' = JString (lit ''1.1'')"
  "get fractional_invoice_form ''status'' = JString (lit ''paid'')"
  by (simp_all add: get_def fractional_invoice_form_def)

lemma passes_fractional_invoice_form:
  "passes CreateInvoice (invoice_input fractional_invoice_form)"
  by (simp add: passes_CreateInvoice_iff get_fractional_invoice_form number_1_1)

lemma invoice_amount_issue:
  assumes "js_le (Number (get fd ''amount'')) (Finite 0)"
  shows "\<exists>iss. safeParse CreateInvoice
                 [(''customerId'', get fd ''customerId''), (''amount'', get fd ''amount''),
                  (''status'', get fd ''status'')] = Failure iss
               \<and> map snd (filter (\<lambda>km. fst km = ''amount'') iss) =
                   [Message ''Please enter an amount greater than $0.'']"
proof -
  from assms have "Number (get fd ''amount'') \<noteq> NaN"
    by auto
  with assms show ?thesis
    unfolding safeParse_def CreateInvoice_shape
    by (auto simp add: get_prop_def parse_plain_string parse_amount parse_status
        split: jsvalue.splits)
qed

section \<open>Creating and updating an invoice\<close>


lemma createInvoice_refused:
  assumes "passes CreateInvoice (invoice_input formData)"
    and "be (Insert ''invoices''
               [(''customer_id'', get formData ''customerId''),
                (''amount'', JNumber (js_times (Number (get formData ''amount'')) (Finite 100))),
                (''status'', get formData ''status''),
                (''date'', JString (split_first 0x54 now))] None) (db w) = Inl e"
  shows "createInvoice be now prevState formData w =
           (Returns (ActionState None ''Database Error: Failed to Create Invoice.''),
            w\<lparr>effects := effects w @
                [Query (Insert ''invoices''
                   [(''customer_id'', get formData ''customerId''),
                    (''amount'',
                     JNumber (js_times (Number (get formData ''amount'')) (Finite 100))),
                    (''status'', get formData ''status''),
                    (''date'', JString (split_first 0x54 now))] None)]\<rparr>)"
  using assms(2)
  by (simp add: createInvoice_def safeParse_CreateInvoice_Success [OF assms(1)] get_prop_def
      js_mul_def sql_def)






text \<open>
  C8. The amount an invoice action writes is meant to be a whole number of cents. For
  the submission \<^verbatim>\<open>customerId="123", amount="1.1", status="paid"\<close>, which passes
  validation, \<open>createInvoice\<close> writes \<open>1.1 * 100\<close> as the binary64 product gives it,
  \<open>110.00000000000001\<close>, which is not an integer.
\<close>

theorem createInvoice_fractional_cents:
  "passes CreateInvoice (invoice_input fractional_invoice_form)
   \<and> queries (effects (snd (createInvoice relational (lit ''2024-03-09T14:05:00.000Z'')
         (ActionState None []) fractional_invoice_form \<lparr>db = empty_store, effects = []\<rparr>))) =
       [Insert ''invoices''
          [(''customer_id'', JString (lit ''123'')),
           (''amount'', JNumber (Finite (7740561859543041 / 70368744177664))),
           (''status'', JString (lit ''paid'')),
           (''date'', JString (lit ''2024-03-09''))] None]
   \<and> \<not> is_integer (Finite (7740561859543041 / 70368744177664))"
proof -
  have refused:
    "relational (Insert ''invoices''
       [(''customer_id'', get fractional_invoice_form ''customerId''),
        (''amount'',
         JNumber (js_times (Number (get fractional_invoice_form ''amount'')) (Finite 100))),
        (''status'', get fractional_invoice_form ''status''),
        (''date'', JString (split_first 0x54 (lit ''2024-03-09T14:05:00.000Z'')))] None)
       (db \<lparr>db = empty_store, effects = []\<rparr>) =
     Inl ''violates a constraint of the table''"
    by (simp add: collides_def admits_def invoice_constraints_def empty_store_def)
  have "queries (effects (snd (createInvoice relational (lit ''2024-03-09T14:05:00.000Z'')
         (ActionState None []) fractional_invoice_form \<lparr>db = empty_store, effects = []\<rparr>))) =
       [Insert ''invoices''
          [(''customer_id'', get fractional_invoice_form ''customerId''),
        (''amount'',
         JNumber (js_times (Number (get fractional_invoice_form ''amount'')) (Finite 100))),
        (''status'', get fractional_invoice_form ''status''),
        (''date'', JString (split_first 0x54 (lit ''2024-03-09T14:05:00.000Z'')))] None]"
    unfolding createInvoice_refused
        [where formData = fractional_invoice_form and be = relational
           and w = "\<lparr>db = empty_store, effects = []\<rparr>",
         OF passes_fractional_invoice_form refused]
    by (simp add: queries_def)
  then have sent: "queries (effects (snd (createInvoice relational (lit ''2024-03-09T14:05:00.000Z'')
         (ActionState None []) fractional_invoice_form \<lparr>db = empty_store, effects = []\<rparr>))) =
       [Insert ''invoices''
          [(''customer_id'', JString (lit ''123'')),
           (''amount'', JNumber (Finite (7740561859543041 / 70368744177664))),
           (''status'', JString (lit ''paid'')),
           (''date'', JString (lit ''2024-03-09''))] None]"
    unfolding get_fractional_invoice_form Number.simps number_1_1 times_1_1 date_of_now .
  have "\<not> is_integer (Finite (7740561859543041 / 70368744177664))"
    by (simp add: is_integer_def)
  with passes_fractional_invoice_form sent show ?thesis by blast
qed

text \<open>
  C2. For every invoice update submission that passes validation, if the storage call
  fails then \<open>updateInvoice\<close> returns exactly the object with the message
  \<^verbatim>\<open>Database Error: Failed to Update Invoice.\<close>, marks no path stale, does not redirect
  and leaves the stored data as it was.
\<close>

theorem updateInvoice_storage_failure:
  assumes "passes UpdateInvoice (invoice_input formData)"
    and "be (Update ''invoices''
               [(''customer_id'', get formData ''customerId''),
                (''amount'', JNumber (js_times (Number (get formData ''amount'')) (Finite 100))),
                (''status'', get formData ''status'')] ''id'' (JString id')) (db w) = Inl e"
  shows "case updateInvoice be id' prevState formData w of
           (out, w') \<Rightarrow>
             out = Returns (ActionState None ''Database Error: Failed to Update Invoice.'')
             \<and> revalidated (effects w') = revalidated (effects w)
             \<and> (\<forall>p. out \<noteq> Redirects p)
             \<and> db w' = db w"
proof -
  from assms(1) have valid: "passes CreateInvoice (invoice_input formData)"
    by (simp add: passes_UpdateInvoice)
  show ?thesis
    using assms(2)
    by (simp add: updateInvoice_def UpdateInvoice_shape safeParse_CreateInvoice_Success [OF valid]
        get_prop_def js_mul_def sql_def revalidated_def)
qed

theorem updateInvoice_storage_failure_witness:
  "passes UpdateInvoice (invoice_input paid_invoice_form)
   \<and> fst (updateInvoice offline (lit ''a1'') (ActionState None []) paid_invoice_form
            \<lparr>db = one_invoice_store, effects = []\<rparr>) =
       Returns (ActionState None ''Database Error: Failed to Update Invoice.'')
   \<and> revalidated (effects (snd (updateInvoice offline (lit ''a1'') (ActionState None [])
            paid_invoice_form \<lparr>db = one_invoice_store, effects = []\<rparr>))) = []
   \<and> db (snd (updateInvoice offline (lit ''a1'') (ActionState None [])
            paid_invoice_form \<lparr>db = one_invoice_store, effects = []\<rparr>)) = one_invoice_store"
proof -
  have valid: "passes UpdateInvoice (invoice_input paid_invoice_form)"
    by (simp add: passes_UpdateInvoice passes_paid_invoice_form)
  have fails:
    "offline (Update ''invoices''
               [(''customer_id'', get paid_invoice_form ''customerId''),
                (''amount'',
                 JNumber (js_times (Number (get paid_invoice_form ''amount'')) (Finite 100))),
                (''status'', get paid_invoice_form ''status'')] ''id'' (JString (lit ''a1'')))
        (db \<lparr>db = one_invoice_store, effects = []\<rparr>) = Inl ''connection refused''"
    by (simp add: offline_def)
  show ?thesis
    using valid
      updateInvoice_storage_failure
        [where formData = paid_invoice_form and be = offline and id' = "lit ''a1''"
           and w = "\<lparr>db = one_invoice_store, effects = []\<rparr>"
           and prevState = "ActionState None []",
         OF valid fails]
    by (simp add: case_prod_unfold revalidated_def)
qed

text \<open>
  C3. For every invoice submission whose amount coerces to a number that is at most 0,
  \<open>createInvoice\<close> and \<open>updateInvoice\<close> return the validation failure, with the field
  error on \<^verbatim>\<open>amount\<close>, and the world is as before: no statement was sent to storage.
\<close>

theorem nonpositive_amount_rejected:
  assumes "js_le (Number (get formData ''amount'')) (Finite 0)"
  shows "\<exists>fe. createInvoice be now prevState formData w =
                (Returns (ActionState (Some fe) ''Missing Fields. Failed to Create Invoice.''), w)
            \<and> updateInvoice be id' prevState formData w =
                (Returns (ActionState (Some fe) ''Missing Fields. Failed to Update Invoice.''), w)
            \<and> map_of fe ''amount'' = Some [Message ''Please enter an amount greater than $0.'']"
proof -
  obtain iss where both:
    "safeParse CreateInvoice
       [(''customerId'', get formData ''customerId''), (''amount'', get formData ''amount''),
        (''status'', get formData ''status'')] = Failure iss
     \<and> map snd (filter (\<lambda>km. fst km = ''amount'') iss) =
         [Message ''Please enter an amount greater than $0.'']"
    using invoice_amount_issue [OF assms] ..
  note fail = conjunct1 [OF both] and amt = conjunct2 [OF both]
  have amount_error:
    "map_of (fieldErrors iss) ''amount'' = Some [Message ''Please enter an amount greater than $0.'']"
    unfolding map_of_fieldErrors amt by simp
  have create: "createInvoice be now prevState formData w =
      (Returns (ActionState (Some (fieldErrors iss)) ''Missing Fields. Failed to Create Invoice.''), w)"
    unfolding createInvoice_def fail by simp
  have update: "updateInvoice be id' prevState formData w =
      (Returns (ActionState (Some (fieldErrors iss)) ''Missing Fields. Failed to Update Invoice.''), w)"
    unfolding updateInvoice_def UpdateInvoice_shape fail by simp
  from create update amount_error show ?thesis
    by (intro exI [of _ "fieldErrors iss"] conjI)
qed

theorem nonpositive_amount_rejected_witness:
  "js_le (Number (get negative_amount_form ''amount'')) (Finite 0)
   \<and> (\<exists>fe. createInvoice relational (lit ''2024-03-09T14:05:00.000Z'') (ActionState None [])
              negative_amount_form \<lparr>db = empty_store, effects = []\<rparr> =
            (Returns (ActionState (Some fe) ''Missing Fields. Failed to Create Invoice.''),
             \<lparr>db = empty_store, effects = []\<rparr>)
          \<and> updateInvoice relational (lit ''a1'') (ActionState None [])
              negative_amount_form \<lparr>db = empty_store, effects = []\<rparr> =
            (Returns (ActionState (Some fe) ''Missing Fields. Failed to Update Invoice.''),
             \<lparr>db = empty_store, effects = []\<rparr>)
          \<and> map_of fe ''amount'' = Some [Message ''Please enter an amount greater than $0.''])"
proof -
  have neg: "js_le (Number (get negative_amount_form ''amount'')) (Finite 0)"
    by (simp add: get_negative_amount_form number_minus_5)
  show ?thesis
    using neg nonpositive_amount_rejected [OF neg] by blast
qed

section \<open>Deleting an invoice\<close>

text \<open>
  C10. For every identifier and every storage, \<open>deleteInvoice\<close> never redirects; it
  marks \<^verbatim>\<open>/dashboard/invoices\<close> stale exactly when the storage delete succeeds; and when
  the delete fails it returns the object with the message
  \<^verbatim>\<open>Database Error: Failed to Delete Invoice.\<close> and marks nothing.
\<close>

theorem deleteInvoice_effects:
  "case deleteInvoice be id' w of
     (out, w') \<Rightarrow>
       (\<forall>p. out \<noteq> Redirects p)
       \<and> (revalidated (effects w') = revalidated (effects w) @ [''/dashboard/invoices'']
            \<longleftrightarrow> (\<exists>d. be (Delete ''invoices'' ''id'' (JString id')) (db w) = Inr d))
       \<and> ((\<exists>e. be (Delete ''invoices'' ''id'' (JString id')) (db w) = Inl e) \<longrightarrow>
            out = Returns (Some (ActionState None ''Database Error: Failed to Delete Invoice.''))
            \<and> revalidated (effects w') = revalidated (effects w))"
  by (cases "be (Delete ''invoices'' ''id'' (JString id')) (db w)")
     (simp_all add: deleteInvoice_def sql_def revalidatePath_def revalidated_def)

theorem deleteInvoice_effects_witness:
  "offline (Delete ''invoices'' ''id'' (JString (lit ''a1''))) one_invoice_store =
     Inl ''connection refused''
   \<and> fst (deleteInvoice offline (lit ''a1'') \<lparr>db = one_invoice_store, effects = []\<rparr>) =
       Returns (Some (ActionState None ''Database Error: Failed to Delete Invoice.''))
   \<and> revalidated (effects (snd (deleteInvoice offline (lit ''a1'')
         \<lparr>db = one_invoice_store, effects = []\<rparr>))) = []
   \<and> revalidated (effects (snd (deleteInvoice relational (lit ''a1'')
         \<lparr>db = one_invoice_store, effects = []\<rparr>))) = [''/dashboard/invoices'']"
proof -
  have fails: "offline (Delete ''invoices'' ''id'' (JString (lit ''a1''))) one_invoice_store =
     Inl ''connection refused''"
    by (simp add: offline_def)
  have works: "\<exists>d. relational (Delete ''invoices'' ''id'' (JString (lit ''a1'')))
      (db \<lparr>db = one_invoice_store, effects = []\<rparr>) = Inr d"
    by simp
  have down: "fst (deleteInvoice offline (lit ''a1'') \<lparr>db = one_invoice_store, effects = []\<rparr>) =
       Returns (Some (ActionState None ''Database Error: Failed to Delete Invoice.''))
   \<and> revalidated (effects (snd (deleteInvoice offline (lit ''a1'')
         \<lparr>db = one_invoice_store, effects = []\<rparr>))) = []"
    using fails
      deleteInvoice_effects
        [where be = offline and id' = "lit ''a1''"
           and w = "\<lparr>db = one_invoice_store, effects = []\<rparr>"]
    by (simp add: case_prod_unfold revalidated_def)
  have up: "revalidated (effects (snd (deleteInvoice relational (lit ''a1'')
         \<lparr>db = one_invoice_store, effects = []\<rparr>))) = [''/dashboard/invoices'']"
    using works
      deleteInvoice_effects
        [where be = relational and id' = "lit ''a1''"
           and w = "\<lparr>db = one_invoice_store, effects = []\<rparr>"]
    by (simp add: case_prod_unfold revalidated_def del: relational.simps)
  from fails down up show ?thesis by blast
qed

text \<open>
  C6. For every identifier that matches no stored invoice, \<open>deleteInvoice\<close> on the
  relational store returns nothing (no error object), leaves the stored data as it was,
  and still marks \<^verbatim>\<open>/dashboard/invoices\<close> stale.
\<close>

theorem deleteInvoice_missing_identifier:
  assumes "\<not> list_ex (has_value ''id'' (JString id')) (db w ''invoices'')"
  shows "deleteInvoice relational id' w =
           (Returns None,
            w\<lparr>effects := effects w @
                 [Query (Delete ''invoices'' ''id'' (JString id')),
                  RevalidatePath ''/dashboard/invoices'']\<rparr>)"
proof -
  have kept:
    "filter (\<lambda>r. \<not> has_value ''id'' (JString id') r) (db w ''invoices'') = db w ''invoices''"
    using assms by (simp add: list_ex_iff)
  have "relational (Delete ''invoices'' ''id'' (JString id')) (db w) =
          Inr ((db w)(''invoices'' :=
                 filter (\<lambda>r. \<not> has_value ''id'' (JString id') r) (db w ''invoices'')))"
    by simp
  also have "\<dots> = Inr (db w)"
    unfolding kept by simp
  finally have unchanged:
    "relational (Delete ''invoices'' ''id'' (JString id')) (db w) = Inr (db w)" .
  show ?thesis
    unfolding deleteInvoice_def sql_def unchanged
    by (simp add: revalidatePath_def)
qed

theorem deleteInvoice_missing_identifier_witness:
  "\<not> list_ex (has_value ''id'' (JString (lit ''zz''))) (one_invoice_store ''invoices'')
   \<and> deleteInvoice relational (lit ''zz'') \<lparr>db = one_invoice_store, effects = []\<rparr> =
       (Returns None,
        \<lparr>db = one_invoice_store,
         effects = [Query (Delete ''invoices'' ''id'' (JString (lit ''zz''))),
                    RevalidatePath ''/dashboard/invoices'']\<rparr>)"
proof -
  have absent:
    "\<not> list_ex (has_value ''id'' (JString (lit ''zz'')))
         (db \<lparr>db = one_invoice_store, effects = []\<rparr> ''invoices'')"
    by (simp add: one_invoice_store_def has_value_def lit_def)
  show ?thesis
    using absent deleteInvoice_missing_identifier [OF absent]
    by simp
qed

section \<open>Signing in\<close>

text \<open>
  C7. \<open>authenticate\<close> returns \<^verbatim>\<open>Invalid credentials.\<close> when the provider throws an
  authentication error of type \<^verbatim>\<open>CredentialsSignin\<close>, returns \<^verbatim>\<open>Something went wrong.\<close>
  for an authentication error of any other type, and lets any other error escape to the
  caller.
\<close>

theorem authenticate_error_mapping:
  "(signIn ''credentials'' formData = Some (AuthError ''CredentialsSignin'') \<longrightarrow>
      authenticate signIn prevState formData = Returns (Some ''Invalid credentials.''))
   \<and> (\<forall>t. signIn ''credentials'' formData = Some (AuthError t) \<and> t \<noteq> ''CredentialsSignin'' \<longrightarrow>
      authenticate signIn prevState formData = Returns (Some ''Something went wrong.''))
   \<and> (\<forall>x. signIn ''credentials'' formData = Some (OtherError x) \<longrightarrow>
      authenticate signIn prevState formData = Throws (OtherError x))"
  by (simp add: authenticate_def)

theorem authenticate_error_mapping_witness:
  "authenticate (\<lambda>p fd. Some (AuthError ''CredentialsSignin'')) None [] =
     Returns (Some ''Invalid credentials.'')
   \<and> authenticate (\<lambda>p fd. Some (AuthError ''CallbackRouteError'')) None [] =
     Returns (Some ''Something went wrong.'')
   \<and> authenticate (\<lambda>p fd. Some (OtherError ''NEXT_REDIRECT'')) None [] =
     Throws (OtherError ''NEXT_REDIRECT'')"
  using authenticate_error_mapping
      [where signIn = "\<lambda>p fd. Some (AuthError ''CredentialsSignin'')"
         and formData = "[]" and prevState = None]
    authenticate_error_mapping
      [where signIn = "\<lambda>p fd. Some (AuthError ''CallbackRouteError'')"
         and formData = "[]" and prevState = None]
    authenticate_error_mapping
      [where signIn = "\<lambda>p fd. Some (OtherError ''NEXT_REDIRECT'')"
         and formData = "[]" and prevState = None]
  by simp

section \<open>The customer schema and actions\<close>

lemma CreateCustomer_shape:
  "CreateCustomer zod =
     [(''name'', ZString (Some ''Name is required'') (Some ''Name must be a string'')
                   [Trim, Min 3 ''Must be 2 or more characters long'',
                    Max 20 ''Must be 20 or fewer characters long'']),
      (''email'', ZString (Some ''Email is required'') (Some ''Email must be a string'')
                    [Trim, Email (email_format zod) ''Invalid email address''])]"
  by (simp add: CreateCustomer_def omit_def FormCustomerSchema_def)

lemma UpdateCustomer_shape: "UpdateCustomer zod = CreateCustomer zod"
  by (simp add: CreateCustomer_def UpdateCustomer_def)

lemma parse_name:
  "parse (ZString r i [Trim, Min 3 a, Max 20 b]) (JString n) =
     (if length (trim n) < 3 then Inl [Message a]
      else if 20 < length (trim n) then Inl [Message b]
      else Inr (JString (trim n)))"
  by simp

lemma parse_email:
  "parse (ZString r i [Trim, Email ok m]) (JString e) =
     (if ok (trim e) then Inr (JString (trim e)) else Inl [Message m])"
  by simp

lemma customer_issues:
  "\<exists>iss dat. parse_fields (CreateCustomer zod) [(''name'', v1), (''email'', v2)] = (iss, dat)
     \<and> map snd (filter (\<lambda>km. fst km = ''name'') iss) =
         (case parse (ZString (Some ''Name is required'') (Some ''Name must be a string'')
                        [Trim, Min 3 ''Must be 2 or more characters long'',
                         Max 20 ''Must be 20 or fewer characters long'']) v1 of
            Inl ms \<Rightarrow> ms | Inr _ \<Rightarrow> [])
     \<and> map snd (filter (\<lambda>km. fst km = ''email'') iss) =
         (case parse (ZString (Some ''Email is required'') (Some ''Email must be a string'')
                        [Trim, Email (email_format zod) ''Invalid email address'']) v2 of
            Inl ms \<Rightarrow> ms | Inr _ \<Rightarrow> [])
     \<and> map snd (filter (\<lambda>km. fst km = ''image'') iss) = []"
  unfolding CreateCustomer_shape
  by (simp add: get_prop_def filter_map comp_def split: sum.splits del: parse.simps)

lemma customer_rejected:
  assumes "parse_fields (CreateCustomer zod)
             [(''name'', get formData ''name''), (''email'', get formData ''email'')] = (iss, dat)"
    and "iss \<noteq> []"
  shows "createCustomer zod be uuid prevState formData w =
           (Returns (ActionState (Some (fieldErrors iss))
                       ''Missing Fields. Failed to Add Customer''), w)"
    and "updateCustomer zod be id' prevState formData w =
           (Returns (ActionState (Some (fieldErrors iss))
                       ''Missing Fields. Failed to Add Customer''), w)"
  using assms
  by (simp_all add: createCustomer_def updateCustomer_def UpdateCustomer_shape safeParse_def)

text \<open>
  C4. For every customer submission: a name whose trimmed length is below 3 or above 20
  makes validation fail with a field error on \<^verbatim>\<open>name\<close>, and an email whose trimmed value
  does not pass the library's address test makes it fail with a field error on
  \<^verbatim>\<open>email\<close>; \<open>createCustomer\<close> and \<open>updateCustomer\<close> then return the failure and
  leave the world as it was.
\<close>

theorem customer_name_and_email_validated:
  "(get formData ''name'' = JString n \<and> (length (trim n) < 3 \<or> 20 < length (trim n)) \<longrightarrow>
      (\<exists>fe. createCustomer zod be uuid prevState formData w =
               (Returns (ActionState (Some fe) ''Missing Fields. Failed to Add Customer''), w)
           \<and> updateCustomer zod be id' prevState formData w =
               (Returns (ActionState (Some fe) ''Missing Fields. Failed to Add Customer''), w)
           \<and> map_of fe ''name'' =
               Some [Message (if length (trim n) < 3 then ''Must be 2 or more characters long''
                              else ''Must be 20 or fewer characters long'')]))
   \<and> (get formData ''email'' = JString e \<and> \<not> email_format zod (trim e) \<longrightarrow>
      (\<exists>fe. createCustomer zod be uuid prevState formData w =
               (Returns (ActionState (Some fe) ''Missing Fields. Failed to Add Customer''), w)
           \<and> updateCustomer zod be id' prevState formData w =
               (Returns (ActionState (Some fe) ''Missing Fields. Failed to Add Customer''), w)
           \<and> map_of fe ''email'' = Some [Message ''Invalid email address'']))"
proof -
  obtain iss dat where
    fields: "parse_fields (CreateCustomer zod)
               [(''name'', get formData ''name''), (''email'', get formData ''email'')] = (iss, dat)"
    and names: "map snd (filter (\<lambda>km. fst km = ''name'') iss) =
         (case parse (ZString (Some ''Name is required'') (Some ''Name must be a string'')
                        [Trim, Min 3 ''Must be 2 or more characters long'',
                         Max 20 ''Must be 20 or fewer characters long''])
                 (get formData ''name'') of
            Inl ms \<Rightarrow> ms | Inr _ \<Rightarrow> [])"
    and emails: "map snd (filter (\<lambda>km. fst km = ''email'') iss) =
         (case parse (ZString (Some ''Email is required'') (Some ''Email must be a string'')
                        [Trim, Email (email_format zod) ''Invalid email address''])
                 (get formData ''email'') of
            Inl ms \<Rightarrow> ms | Inr _ \<Rightarrow> [])"
    using customer_issues [of zod "get formData ''name''" "get formData ''email''"]
    by (elim exE conjE)
  have name_part:
    "\<exists>fe. createCustomer zod be uuid prevState formData w =
               (Returns (ActionState (Some fe) ''Missing Fields. Failed to Add Customer''), w)
           \<and> updateCustomer zod be id' prevState formData w =
               (Returns (ActionState (Some fe) ''Missing Fields. Failed to Add Customer''), w)
           \<and> map_of fe ''name'' =
               Some [Message (if length (trim n) < 3 then ''Must be 2 or more characters long''
                              else ''Must be 20 or fewer characters long'')]"
    if n: "get formData ''name'' = JString n" and bad: "length (trim n) < 3 \<or> 20 < length (trim n)"
  proof -
    have found: "map snd (filter (\<lambda>km. fst km = ''name'') iss) =
          [Message (if length (trim n) < 3 then ''Must be 2 or more characters long''
                    else ''Must be 20 or fewer characters long'')]"
      unfolding names n parse_name using bad by auto
    then have nonempty: "iss \<noteq> []" by auto
    have "createCustomer zod be uuid prevState formData w =
            (Returns (ActionState (Some (fieldErrors iss))
                        ''Missing Fields. Failed to Add Customer''), w)"
      by (rule customer_rejected(1) [OF fields nonempty])
    moreover have "updateCustomer zod be id' prevState formData w =
            (Returns (ActionState (Some (fieldErrors iss))
                        ''Missing Fields. Failed to Add Customer''), w)"
      by (rule customer_rejected(2) [OF fields nonempty])
    ultimately show ?thesis
      using found
      by (intro exI [of _ "fieldErrors iss"]) (simp add: map_of_fieldErrors)
  qed
  have email_part:
    "\<exists>fe. createCustomer zod be uuid prevState formData w =
               (Returns (ActionState (Some fe) ''Missing Fields. Failed to Add Customer''), w)
           \<and> updateCustomer zod be id' prevState formData w =
               (Returns (ActionState (Some fe) ''Missing Fields. Failed to Add Customer''), w)
           \<and> map_of fe ''email'' = Some [Message ''Invalid email address'']"
    if e: "get formData ''email'' = JString e" and bad: "\<not> email_format zod (trim e)"
  proof -
    have found: "map snd (filter (\<lambda>km. fst km = ''email'') iss) =
          [Message ''Invalid email address'']"
      unfolding emails e parse_email using bad by simp
    then have nonempty: "iss \<noteq> []" by auto
    have "createCustomer zod be uuid prevState formData w =
            (Returns (ActionState (Some (fieldErrors iss))
                        ''Missing Fields. Failed to Add Customer''), w)"
      by (rule customer_rejected(1) [OF fields nonempty])
    moreover have "updateCustomer zod be id' prevState formData w =
            (Returns (ActionState (Some (fieldErrors iss))
                        ''Missing Fields. Failed to Add Customer''), w)"
      by (rule customer_rejected(2) [OF fields nonempty])
    ultimately show ?thesis
      using found
      by (intro exI [of _ "fieldErrors iss"]) (simp add: map_of_fieldErrors)
  qed
  from name_part email_part show ?thesis by blast
qed

lemma trim_short_name: "trim (lit '' Al '') = lit ''Al''"
  by (simp add: trim_def lit_def is_white_space_def)

lemma trim_nobody: "trim (lit ''nobody'') = lit ''nobody''"
  by (simp add: trim_def lit_def is_white_space_def)

lemma get_short_name_form:
  "get short_name_form ''name'' = JString (lit '' Al '')"
  "get short_name_form ''email'' = JString (lit ''nobody'')"
  by (simp_all add: get_def short_name_form_def)

theorem customer_name_and_email_validated_witness:
  "length (trim (lit '' Al '')) < 3
   \<and> \<not> email_format example_formats (trim (lit ''nobody''))
   \<and> (\<exists>fe. createCustomer example_formats relational taken_uuid (ActionState None [])
              short_name_form \<lparr>db = empty_store, effects = []\<rparr> =
            (Returns (ActionState (Some fe) ''Missing Fields. Failed to Add Customer''),
             \<lparr>db = empty_store, effects = []\<rparr>)
          \<and> map_of fe ''name'' = Some [Message ''Must be 2 or more characters long''])
   \<and> (\<exists>fe. createCustomer example_formats relational taken_uuid (ActionState None [])
              short_name_form \<lparr>db = empty_store, effects = []\<rparr> =
            (Returns (ActionState (Some fe) ''Missing Fields. Failed to Add Customer''),
             \<lparr>db = empty_store, effects = []\<rparr>)
          \<and> map_of fe ''email'' = Some [Message ''Invalid email address''])"
proof -
  have short: "length (trim (lit '' Al '')) < 3"
    by (simp add: trim_short_name) (simp add: lit_def)
  have odd: "\<not> email_format example_formats (trim (lit ''nobody''))"
    by (simp add: trim_nobody) (simp add: example_formats_def address_like_def lit_def)
  show ?thesis
    using short odd get_short_name_form
      customer_name_and_email_validated
        [where formData = short_name_form and n = "lit '' Al ''" and e = "lit ''nobody''"
           and zod = example_formats and be = relational and uuid = taken_uuid
           and prevState = "ActionState None []"
           and w = "\<lparr>db = empty_store, effects = []\<rparr>"]
    by auto
qed

lemma safeParse_CreateCustomer_Success:
  assumes "passes (CreateCustomer zod) (customer_input fd)"
  shows "\<exists>n e. get fd ''name'' = JString n \<and> get fd ''email'' = JString e
           \<and> safeParse (CreateCustomer zod)
                 [(''name'', get fd ''name''), (''email'', get fd ''email'')] =
               Success [(''name'', JString (trim n)), (''email'', JString (trim e))]"
proof -
  from assms obtain n where n: "get fd ''name'' = JString n"
    unfolding passes_def customer_input_def safeParse_def CreateCustomer_shape
    by (cases "get fd ''name''") (auto simp add: get_prop_def split: sum.splits if_splits)
  from assms obtain e where e: "get fd ''email'' = JString e"
    unfolding passes_def customer_input_def safeParse_def CreateCustomer_shape
    by (cases "get fd ''email''") (auto simp add: get_prop_def split: sum.splits if_splits)
  from assms show ?thesis
    unfolding passes_def customer_input_def safeParse_def CreateCustomer_shape n e
    by (auto simp add: get_prop_def split: if_splits)
qed

lemma insert_on_conflict:
  assumes "list_ex (has_value ''id'' v) (s ''customers'')"
  shows "relational (Insert ''customers'' ((''id'', v) # cols) (Some ''id'')) s = Inr s"
  using assms by (simp add: collides_def)

lemma createInvoice_inserts_plainly:
  "\<exists>es. effects (snd (createInvoice be now prevState formData w)) = effects w @ es
        \<and> (\<forall>t r cf. Query (Insert t r cf) \<in> set es \<longrightarrow> cf = None)"
proof (cases "safeParse CreateInvoice
                [(''customerId'', get formData ''customerId''),
                 (''amount'', get formData ''amount''),
                 (''status'', get formData ''status'')]")
  case (Success dat)
  then show ?thesis
    by (cases "be (Insert ''invoices''
                 [(''customer_id'', get_prop dat ''customerId''),
                  (''amount'', js_mul (get_prop dat ''amount'') (JNumber (Finite 100))),
                  (''status'', get_prop dat ''status''),
                  (''date'', JString (split_first 0x54 now))] None) (db w)")
      (simp_all add: createInvoice_def sql_def revalidatePath_def)
next
  case (Failure iss)
  then show ?thesis
    by (simp add: createInvoice_def)
qed

text \<open>
  C5. For every customer submission that passes validation, when the generated identifier
  is already the \<^verbatim>\<open>id\<close> of a stored customer, \<open>createCustomer\<close> on the relational store
  changes no stored data and reports no error: the insert, sent with its
  \<^verbatim>\<open>ON CONFLICT (id) DO NOTHING\<close> clause, does nothing, and the action goes on to mark the
  customers page and redirect. Every insert that \<open>createInvoice\<close> sends has no conflict
  clause.
\<close>

theorem createCustomer_conflict_is_noop:
  assumes "passes (CreateCustomer zod) (customer_input formData)"
    and "list_ex (has_value ''id'' (JString uuid)) (db w ''customers'')"
  shows "(case createCustomer zod relational uuid prevState formData w of
            (out, w') \<Rightarrow>
              out = Redirects ''/dashboard/customers''
              \<and> db w' = db w
              \<and> (\<exists>row. effects w' = effects w @
                     [Query (Insert ''customers'' row (Some ''id'')),
                      RevalidatePath ''/dashboard/customers'']))
       \<and> (\<exists>es. effects (snd (createInvoice be now prevState' formData' w0)) = effects w0 @ es
              \<and> (\<forall>t r cf. Query (Insert t r cf) \<in> set es \<longrightarrow> cf = None))"
proof -
  from safeParse_CreateCustomer_Success [OF assms(1)] obtain n e where
    ok: "safeParse (CreateCustomer zod)
           [(''name'', get formData ''name''), (''email'', get formData ''email'')] =
         Success [(''name'', JString (trim n)), (''email'', JString (trim e))]"
    by (elim exE conjE)
  have noop: "relational (Insert ''customers''
                 [(''id'', JString uuid), (''name'', JString (trim n)),
                  (''email'', JString (trim e))] (Some ''id'')) (db w) = Inr (db w)"
    by (rule insert_on_conflict [where s = "db w", OF assms(2)])
  have "createCustomer zod relational uuid prevState formData w =
          (Redirects ''/dashboard/customers'',
           w\<lparr>effects := effects w @
                [Query (Insert ''customers''
                   [(''id'', JString uuid), (''name'', JString (trim n)),
                    (''email'', JString (trim e))] (Some ''id'')),
                 RevalidatePath ''/dashboard/customers'']\<rparr>)"
    unfolding createCustomer_def ok
    by (simp add: get_prop_def sql_def noop revalidatePath_def del: relational.simps)
  then show ?thesis
    using createInvoice_inserts_plainly [of be now prevState' formData' w0]
    by simp
qed

lemma trim_alice: "trim (lit ''Alice Doe'') = lit ''Alice Doe''"
  by (simp add: trim_def lit_def is_white_space_def)

lemma trim_alice_email: "trim (lit ''alice@example.com'') = lit ''alice@example.com''"
  by (simp add: trim_def lit_def is_white_space_def)

lemma alice_email_ok: "address_like (lit ''alice@example.com'')"
  by (simp add: address_like_def lit_def)

lemma get_customer_form:
  "get customer_form ''name'' = JString (lit ''Alice Doe'')"
  "get customer_form ''email'' = JString (lit ''alice@example.com'')"
  "get customer_form ''image'' = JString (lit ''not a url'')"
  by (simp_all add: get_def customer_form_def)

lemma get_customer_form_with_url:
  "get customer_form_with_url ''name'' = JString (lit ''Alice Doe'')"
  "get customer_form_with_url ''email'' = JString (lit ''alice@example.com'')"
  by (simp_all add: get_def customer_form_with_url_def)

lemma length_alice: "length (lit ''Alice Doe'') = 9"
  by (simp add: lit_def)

lemma safeParse_customer_form:
  "safeParse (CreateCustomer example_formats)
     [(''name'', get customer_form ''name''), (''email'', get customer_form ''email'')] =
   Success [(''name'', JString (lit ''Alice Doe'')),
            (''email'', JString (lit ''alice@example.com''))]"
  unfolding safeParse_def CreateCustomer_shape get_customer_form
  by (simp add: get_prop_def trim_alice trim_alice_email length_alice alice_email_ok
      example_formats_def)

lemma passes_customer_form:
  "passes (CreateCustomer example_formats) (customer_input customer_form)"
  by (simp add: passes_def customer_input_def safeParse_customer_form)

theorem createCustomer_conflict_is_noop_witness:
  "passes (CreateCustomer example_formats) (customer_input customer_form)
   \<and> list_ex (has_value ''id'' (JString taken_uuid)) (one_customer_store ''customers'')
   \<and> fst (createCustomer example_formats relational taken_uuid (ActionState None [])
            customer_form \<lparr>db = one_customer_store, effects = []\<rparr>) =
       Redirects ''/dashboard/customers''
   \<and> db (snd (createCustomer example_formats relational taken_uuid (ActionState None [])
            customer_form \<lparr>db = one_customer_store, effects = []\<rparr>)) = one_customer_store
   \<and> (\<exists>es. effects (snd (createInvoice relational (lit ''2024-03-09T14:05:00.000Z'')
                 (ActionState None []) paid_invoice_form
                 \<lparr>db = one_customer_store, effects = []\<rparr>)) = es
          \<and> (\<forall>t r cf. Query (Insert t r cf) \<in> set es \<longrightarrow> cf = None))"
proof -
  have taken:
    "list_ex (has_value ''id'' (JString taken_uuid))
       (db \<lparr>db = one_customer_store, effects = []\<rparr> ''customers'')"
    by (simp add: one_customer_store_def has_value_def)
  show ?thesis
    using passes_customer_form taken
      createCustomer_conflict_is_noop
        [where zod = example_formats and formData = customer_form and uuid = taken_uuid
           and w = "\<lparr>db = one_customer_store, effects = []\<rparr>"
           and prevState = "ActionState None []"
           and be = relational and now = "lit ''2024-03-09T14:05:00.000Z''"
           and prevState' = "ActionState None []" and formData' = paid_invoice_form
           and ?w0.0 = "\<lparr>db = one_customer_store, effects = []\<rparr>",
         OF passes_customer_form taken]
    by (simp add: case_prod_unfold)
qed

text \<open>
  C9 as the claim states it fails: a customer submission whose image is not a URL (the
  image field of the full schema rejects it) passes the validation of \<open>createCustomer\<close>,
  which stores the customer and redirects.
\<close>

theorem createCustomer_image_counterexample:
  "get customer_form ''image'' = JString (lit ''not a url'')
   \<and> passes (CreateCustomer example_formats) (customer_input customer_form)
   \<and> parse (ZString (Some ''URL Image is required'') (Some ''URL Image must be a string'')
               [Trim, Url (url_format example_formats) ''Invalid url''])
        (get customer_form ''image'') = Inl [Message ''Invalid url'']
   \<and> createCustomer example_formats relational taken_uuid (ActionState None []) customer_form
        \<lparr>db = empty_store, effects = []\<rparr> =
       (Redirects ''/dashboard/customers'',
        \<lparr>db = empty_store(''customers'' :=
                [[(''id'', JString taken_uuid), (''name'', JString (lit ''Alice Doe'')),
                  (''email'', JString (lit ''alice@example.com''))]]),
         effects =
           [Query (Insert ''customers''
              [(''id'', JString taken_uuid), (''name'', JString (lit ''Alice Doe'')),
               (''email'', JString (lit ''alice@example.com''))] (Some ''id'')),
            RevalidatePath ''/dashboard/customers'']\<rparr>)"
proof -
  have "trim (lit ''not a url'') = lit ''not a url''"
    by (simp add: trim_def lit_def is_white_space_def)
  moreover have "\<not> scheme_like (lit ''not a url'')"
    by (simp add: scheme_like_def lit_def)
  ultimately have rejected:
    "parse (ZString (Some ''URL Image is required'') (Some ''URL Image must be a string'')
               [Trim, Url (url_format example_formats) ''Invalid url''])
        (get customer_form ''image'') = Inl [Message ''Invalid url'']"
    by (simp add: get_customer_form example_formats_def)
  have run: "createCustomer example_formats relational taken_uuid (ActionState None [])
        customer_form \<lparr>db = empty_store, effects = []\<rparr> =
       (Redirects ''/dashboard/customers'',
        \<lparr>db = empty_store(''customers'' :=
                [[(''id'', JString taken_uuid), (''name'', JString (lit ''Alice Doe'')),
                  (''email'', JString (lit ''alice@example.com''))]]),
         effects =
           [Query (Insert ''customers''
              [(''id'', JString taken_uuid), (''name'', JString (lit ''Alice Doe'')),
               (''email'', JString (lit ''alice@example.com''))] (Some ''id'')),
            RevalidatePath ''/dashboard/customers'']\<rparr>)"
    unfolding createCustomer_def safeParse_customer_form
    by (simp add: get_prop_def sql_def revalidatePath_def collides_def admits_def
        empty_store_def Let_def)
  from rejected run passes_customer_form show ?thesis
    by (simp add: get_customer_form)
qed

text \<open>
  C9, amended. \<open>createCustomer\<close> and \<open>updateCustomer\<close> validate the name and the email
  only: the image field is omitted from their schemas and is not read from the form.
  Two submissions with the same name and email entries have the same outcome whatever
  their image entries are, and the field errors of a failed validation never have an
  entry for \<^verbatim>\<open>image\<close>.
\<close>

theorem customer_image_not_validated:
  assumes "get formData ''name'' = get formData' ''name''"
    and "get formData ''email'' = get formData' ''email''"
  shows "createCustomer zod be uuid prevState formData w =
           createCustomer zod be uuid prevState formData' w
       \<and> updateCustomer zod be id' prevState formData w =
           updateCustomer zod be id' prevState formData' w
       \<and> (\<forall>fe m w'. createCustomer zod be uuid prevState formData w =
                       (Returns (ActionState (Some fe) m), w')
                     \<or> updateCustomer zod be id' prevState formData w =
                       (Returns (ActionState (Some fe) m), w')
            \<longrightarrow> map_of fe ''image'' = None)"
proof -
  obtain iss dat where
    fields: "parse_fields (CreateCustomer zod)
               [(''name'', get formData ''name''), (''email'', get formData ''email'')] = (iss, dat)"
    and images: "map snd (filter (\<lambda>km. fst km = ''image'') iss) = []"
    using customer_issues [of zod "get formData ''name''" "get formData ''email''"]
    by (elim exE conjE)
  have no_image: "map_of (fieldErrors iss) ''image'' = None"
    by (simp add: map_of_fieldErrors images)
  have same: "createCustomer zod be uuid prevState formData w =
           createCustomer zod be uuid prevState formData' w"
    "updateCustomer zod be id' prevState formData w =
           updateCustomer zod be id' prevState formData' w"
    by (simp_all add: createCustomer_def updateCustomer_def assms)
  have "map_of fe ''image'' = None"
    if "createCustomer zod be uuid prevState formData w = (Returns (ActionState (Some fe) m), w')
        \<or> updateCustomer zod be id' prevState formData w = (Returns (ActionState (Some fe) m), w')"
    for fe m w'
  proof (cases "iss = []")
    case True
    with that fields show ?thesis
      by (auto simp add: createCustomer_def updateCustomer_def UpdateCustomer_shape safeParse_def
          sql_def Let_def split: sum.splits prod.splits bool.splits)
  next
    case False
    from that customer_rejected(1) [OF fields False, of be uuid prevState w]
      customer_rejected(2) [OF fields False, of be id' prevState w] no_image
    show ?thesis by auto
  qed
  with same show ?thesis by blast
qed

lemma run_short_name_form:
  "createCustomer example_formats relational taken_uuid (ActionState None [])
       short_name_form \<lparr>db = empty_store, effects = []\<rparr> =
     (Returns (ActionState
        (Some [(''name'', [Message ''Must be 2 or more characters long'']),
               (''email'', [Message ''Invalid email address''])])
        ''Missing Fields. Failed to Add Customer''),
      \<lparr>db = empty_store, effects = []\<rparr>)"
proof -
  have "length (lit ''Al'') < 3"
    by (simp add: lit_def)
  moreover have "\<not> address_like (lit ''nobody'')"
    by (simp add: address_like_def lit_def)
  ultimately have
    "safeParse (CreateCustomer example_formats)
       [(''name'', get short_name_form ''name''), (''email'', get short_name_form ''email'')] =
     Failure [(''name'', Message ''Must be 2 or more characters long''),
              (''email'', Message ''Invalid email address'')]"
    unfolding safeParse_def CreateCustomer_shape get_short_name_form
    by (simp add: get_prop_def trim_short_name trim_nobody example_formats_def)
  then show ?thesis
    unfolding createCustomer_def
    by (simp add: fieldErrors_def push_error_def)
qed

theorem customer_image_not_validated_witness:
  "get customer_form ''name'' = get customer_form_with_url ''name''
   \<and> get customer_form ''email'' = get customer_form_with_url ''email''
   \<and> createCustomer example_formats relational taken_uuid (ActionState None []) customer_form
        \<lparr>db = empty_store, effects = []\<rparr> =
       createCustomer example_formats relational taken_uuid (ActionState None [])
        customer_form_with_url \<lparr>db = empty_store, effects = []\<rparr>
   \<and> createCustomer example_formats relational taken_uuid (ActionState None [])
        short_name_form \<lparr>db = empty_store, effects = []\<rparr> =
       (Returns (ActionState
          (Some [(''name'', [Message ''Must be 2 or more characters long'']),
                 (''email'', [Message ''Invalid email address''])])
          ''Missing Fields. Failed to Add Customer''),
        \<lparr>db = empty_store, effects = []\<rparr>)
   \<and> map_of [(''name'', [Message ''Must be 2 or more characters long'']),
              (''email'', [Message ''Invalid email address''])] ''image'' = None"
proof -
  have names: "get customer_form ''name'' = get customer_form_with_url ''name''"
    by (simp add: get_customer_form get_customer_form_with_url)
  have emails: "get customer_form ''email'' = get customer_form_with_url ''email''"
    by (simp add: get_customer_form get_customer_form_with_url)
  have same:
    "createCustomer example_formats relational taken_uuid (ActionState None []) customer_form
        \<lparr>db = empty_store, effects = []\<rparr> =
       createCustomer example_formats relational taken_uuid (ActionState None [])
        customer_form_with_url \<lparr>db = empty_store, effects = []\<rparr>"
    using customer_image_not_validated
        [where zod = example_formats and be = relational and uuid = taken_uuid
           and id' = taken_uuid and prevState = "ActionState None []"
           and w = "\<lparr>db = empty_store, effects = []\<rparr>",
         OF names emails]
    by blast
  have no_image:
    "map_of [(''name'', [Message ''Must be 2 or more characters long'']),
             (''email'', [Message ''Invalid email address''])] ''image'' = None"
    using run_short_name_form
      customer_image_not_validated
        [where zod = example_formats and be = relational and uuid = taken_uuid
           and id' = taken_uuid and prevState = "ActionState None []"
           and formData = short_name_form and formData' = short_name_form
           and w = "\<lparr>db = empty_store, effects = []\<rparr>",
         OF refl refl]
    by blast
  from names emails same run_short_name_form no_image show ?thesis
    by blast
qed

end
